theory Spec2Isabelle
  imports Complex_Main "HOL-Library.Log_Nat"
begin

section \<open>The AFG-2125 driver (gwinstek.py) as HOL functions\<close>

text \<open>
  The driver class \<^verbatim>\<open>AFG2125\<close> holds one transport resource and its methods send
  text commands through it. The only effect a method has is the sequence of commands it
  passes to \<^verbatim>\<open>self._resource.write\<close>, so the transport is modelled by the list of
  commands written so far, oldest first. A method takes the transport and returns its
  outcome (an exception or a return value) together with the transport afterwards: the
  transport is kept when an exception is raised, so that what had been written before the
  failure can be read off.

  A Python float is an IEEE double. A finite double is modelled by the rational number
  it denotes (the sign of a zero is not kept: nothing in the driver reads it). On doubles
  \<open>abs\<close>, \<open>max\<close> and comparison are exact. A multiplication or a division gives the
  exact result rounded to the nearest double, and an infinity when the rounded result is
  out of range. The samples given to \<^verbatim>\<open>set_arb_data\<close> are finite doubles. Assertions
  are enabled, as they are unless the interpreter is started with \<^verbatim>\<open>-O\<close>.
\<close>

subsection \<open>Python values and their text\<close>

datatype exn = AssertionError | ValueError | OverflowError

text \<open>The commands written to the instrument so far.\<close>

type_synonym transport = "string list"

text \<open>What a method gives back: the exception raised or the value returned, and the transport.\<close>

type_synonym 'a outcome = "(exn + 'a) \<times> transport"

text \<open>
  The parameters of the setters are strings (the tokens \<^verbatim>\<open>MIN\<close>, \<^verbatim>\<open>MAX\<close>,
  \<^verbatim>\<open>DEF\<close> or any other text), ints or floats. An omitted parameter is \<open>None\<close>.
\<close>

datatype pyval = PyStr string | PyInt int | PyFloat rat

definition digit_char :: "nat \<Rightarrow> char" where
  "digit_char d = char_of (48 + d)"

text \<open>\<^verbatim>\<open>str\<close> of a non-negative int: its decimal digits, most significant first.\<close>

function str_nat :: "nat \<Rightarrow> string" where
  "str_nat n = (if n < 10 then [digit_char n] else str_nat (n div 10) @ [digit_char (n mod 10)])"
  by pat_completeness auto
termination
  by (relation "measure id") auto

declare str_nat.simps [simp del]

text \<open>\<^verbatim>\<open>str\<close> of an int.\<close>

definition str_int :: "int \<Rightarrow> string" where
  "str_int i = (if i < 0 then CHR ''-'' # str_nat (nat (- i)) else str_nat (nat i))"

text \<open>
  What an f-string substitutes for \<^verbatim>\<open>{v}\<close>. A string is inserted as it is and an int
  in decimal. The text of a float is produced by Python's own \<^verbatim>\<open>repr\<close>, which is not
  part of the driver: it is the parameter \<open>float_repr\<close>.
\<close>

fun format_val :: "(rat \<Rightarrow> string) \<Rightarrow> pyval \<Rightarrow> string" where
  "format_val float_repr (PyStr s) = s"
| "format_val float_repr (PyInt i) = str_int i"
| "format_val float_repr (PyFloat x) = float_repr x"

text \<open>
  \<^verbatim>\<open>repr\<close> of a float whose value is an integer of magnitude below \<open>10^16\<close>, such as
  \<^verbatim>\<open>1000.0\<close>: the integer followed by \<^verbatim>\<open>.0\<close>. It is used where an example needs
  a concrete float text.
\<close>

definition repr_integral :: "rat \<Rightarrow> string" where
  "repr_integral x = str_int \<lfloor>x\<rfloor> @ ''.0''"

text \<open>\<^verbatim>\<open>sep.join(xs)\<close>\<close>

fun join :: "string \<Rightarrow> string list \<Rightarrow> string" where
  "join sep [] = []"
| "join sep [x] = x"
| "join sep (x # y # ys) = x @ sep @ join sep (y # ys)"

text \<open>
  \<^verbatim>\<open>round(x)\<close> with one argument: the nearest int, a tie going to the even neighbour.
\<close>

definition py_round :: "rat \<Rightarrow> int" where
  "py_round x =
     (let f = \<lfloor>x\<rfloor>; d = x - of_int f
      in if d < 1 / 2 then f
         else if 1 / 2 < d then f + 1
         else if even f then f else f + 1)"

subsection \<open>Double arithmetic\<close>

text \<open>
  The result of a float operation: a finite double, an infinity (of either sign) or a
  NaN.
\<close>

datatype fval = Finite rat | Infinity | NaN

text \<open>
  The binary exponent of a nonzero rational \<open>x\<close>: the \<open>e\<close> with
  \<open>2^e \<le> \<bar>x\<bar> < 2^(e+1)\<close>. With \<open>\<bar>x\<bar> = p / q\<close> it is the difference of the bit lengths of
  \<open>p\<close> and \<open>q\<close>, or one less.
\<close>

definition float_exponent :: "rat \<Rightarrow> int" where
  "float_exponent x =
     (let (p, q) = quotient_of \<bar>x\<bar>; d = bitlen p - bitlen q
      in if 2 powi d \<le> \<bar>x\<bar> then d else d - 1)"

text \<open>
  Rounding to the nearest double, a tie going to the even significand. A double with
  exponent \<open>e\<close> is a multiple of \<open>2^(e - 52)\<close> (53 significant bits); below the normal
  range, where \<open>e < -1022\<close>, the doubles are the multiples of \<open>2^-1074\<close>. The exponent is
  not bounded above here: \<open>to_double\<close> turns a result out of range into an infinity.
\<close>

definition round_double :: "rat \<Rightarrow> rat" where
  "round_double x =
     (if x = 0 then 0
      else let e = max (float_exponent x) (- 1022); q = 2 powi (e - 52)
           in of_int (py_round (x / q)) * q)"

definition to_double :: "rat \<Rightarrow> fval" where
  "to_double x = (let y = round_double x in if 2 ^ 1024 \<le> \<bar>y\<bar> then Infinity else Finite y)"

text \<open>
  \<^verbatim>\<open>x * s\<close> for a finite double \<open>x\<close> and the result \<open>s\<close> of an earlier operation:
  zero times an infinity is a NaN.
\<close>

fun float_mul :: "rat \<Rightarrow> fval \<Rightarrow> fval" where
  "float_mul x (Finite s) = to_double (x * s)"
| "float_mul x Infinity = (if x = 0 then NaN else Infinity)"
| "float_mul x NaN = NaN"

text \<open>
  \<^verbatim>\<open>round(v)\<close> of a float: \<^verbatim>\<open>OverflowError\<close> for an infinity and \<^verbatim>\<open>ValueError\<close> for
  a NaN.
\<close>

fun round_float :: "fval \<Rightarrow> exn + int" where
  "round_float (Finite p) = Inr (py_round p)"
| "round_float Infinity = Inl OverflowError"
| "round_float NaN = Inl ValueError"

text \<open>
  The bounds on the error of rounding to a double: the relative error in the normal
  range and the absolute error below it.
\<close>

definition unit_roundoff :: rat where
  "unit_roundoff = 1 / 2 ^ 53"

definition tiny :: rat where
  "tiny = 1 / 2 ^ 1075"

subsection \<open>Built-in functions on lists\<close>

text \<open>
  \<^verbatim>\<open>max(it)\<close>: \<^verbatim>\<open>ValueError\<close> on an empty iterable, otherwise the running maximum,
  replaced whenever a later item is greater.
\<close>

fun py_max :: "rat list \<Rightarrow> exn + rat" where
  "py_max [] = Inl ValueError"
| "py_max (x # xs) = Inr (fold (\<lambda>y m. if m < y then y else m) xs x)"

text \<open>\<^verbatim>\<open>list(range(a, b))\<close>\<close>

definition py_range :: "int \<Rightarrow> int \<Rightarrow> int list" where
  "py_range a b = [a .. b - 1]"

subsection \<open>The methods\<close>

text \<open>
  \<^verbatim>\<open>write\<close> (named \<open>write_method\<close> here): the command goes to the transport. The debug
  log line is not modelled.
\<close>

definition write_method :: "string \<Rightarrow> transport \<Rightarrow> transport" where
  "write_method command t = t @ [command]"

text \<open>\<^verbatim>\<open>save\<close>\<close>

definition save :: "int \<Rightarrow> transport \<Rightarrow> transport" where
  "save slot t = write_method (''*SAV '' @ str_int slot) t"

text \<open>
  \<^verbatim>\<open>apply\<close> (named \<open>apply_method\<close> here): the command is built up by three
  tests in a row, each appending one parameter, and written once. Nothing in the method
  raises.
\<close>

definition apply_method :: "(rat \<Rightarrow> string) \<Rightarrow> string \<Rightarrow> pyval option \<Rightarrow> pyval option \<Rightarrow> pyval option
    \<Rightarrow> transport \<Rightarrow> unit outcome" where
  "apply_method float_repr function frequency amplitude offset t =
     (let command = ''SOUR:APPL:'' @ function;
          command = (if frequency \<noteq> None
                     then command @ '' '' @ format_val float_repr (the frequency)
                     else command);
          command = (if list_all (\<lambda>param. param \<noteq> None) [frequency, amplitude]
                     then command @ '','' @ format_val float_repr (the amplitude)
                     else command);
          command = (if list_all (\<lambda>param. param \<noteq> None) [frequency, amplitude, offset]
                     then command @ '','' @ format_val float_repr (the offset)
                     else command)
      in (Inr (), write_method command t))"

text \<open>
  \<^verbatim>\<open>set_amplitude_modulation\<close>: the state is written first; \<^verbatim>\<open>OFF\<close> returns at
  once; otherwise the source, for an internal source its function and frequency, and
  last the depth.
\<close>

definition set_amplitude_modulation :: "(rat \<Rightarrow> string) \<Rightarrow> string \<Rightarrow> string \<Rightarrow> string \<Rightarrow> pyval
    \<Rightarrow> pyval \<Rightarrow> transport \<Rightarrow> unit outcome" where
  "set_amplitude_modulation float_repr state source function frequency depth t =
     (let t = write_method (''SOUR:AM:STAT '' @ state) t
      in if state = ''OFF'' then (Inr (), t)
         else
           let t = write_method (''SOUR:AM:SOUR '' @ source) t;
               t = (if source = ''INT''
                    then write_method (''SOUR:AM:INT:FREQ '' @ format_val float_repr frequency)
                           (write_method (''SOUR:AM:INT:FUNC '' @ function) t)
                    else t)
           in (Inr (), write_method (''SOUR:AM:DEPT '' @ format_val float_repr depth) t))"

text \<open>
  \<^verbatim>\<open>set_arb_data\<close>, with its local variables as functions of the data. The two
  assertions come first. An all-zero waveform returns a list of zeros to the caller and
  writes nothing. For any other waveform the scale \<^verbatim>\<open>511.0 / max_val\<close> is computed
  and each sample is multiplied by it and rounded, one after the other, so that the first
  sample that cannot be rounded ends the method with the exception of \<^verbatim>\<open>round\<close> and
  nothing written. Otherwise the codes are uploaded and saved, and the method returns
  \<^verbatim>\<open>None\<close>.
\<close>

definition max_val :: "rat list \<Rightarrow> exn + rat" where
  "max_val data = py_max (map abs data)"

definition scale :: "rat \<Rightarrow> fval" where
  "scale m = to_double (511 / m)"

fun codes :: "rat list \<Rightarrow> fval \<Rightarrow> exn + int list" where
  "codes [] s = Inr []"
| "codes (x # xs) s =
     (case round_float (float_mul x s) of
        Inl e \<Rightarrow> Inl e
      | Inr c \<Rightarrow> (case codes xs s of Inl e \<Rightarrow> Inl e | Inr cs \<Rightarrow> Inr (c # cs)))"

definition data_str :: "int list \<Rightarrow> string" where
  "data_str cs = join '','' (map str_int cs)"

definition set_arb_data :: "rat list \<Rightarrow> int \<Rightarrow> transport \<Rightarrow> (rat list option) outcome" where
  "set_arb_data data slot t =
     (if \<not> (length data \<ge> 1 \<and> length data \<le> 4096) then (Inl AssertionError, t)
      else if slot \<notin> set (py_range 10 20) then (Inl AssertionError, t)
      else case max_val data of
             Inl e \<Rightarrow> (Inl e, t)
           | Inr m \<Rightarrow>
               if m = 0 then (Inr (Some (replicate (length data) 0)), t)
               else case codes data (scale m) of
                      Inl e \<Rightarrow> (Inl e, t)
                    | Inr cs \<Rightarrow>
                        (Inr None,
                         save slot (write_method (''DATA:DAC VOLATILE,0,'' @ data_str cs) t)))"

subsection \<open>Notions of the specification\<close>

text \<open>
  The parameters of \<^verbatim>\<open>apply\<close> form a legal prefix when none is supplied after an
  omitted one.
\<close>

definition legal_prefix :: "'a option \<Rightarrow> 'a option \<Rightarrow> 'a option \<Rightarrow> bool" where
  "legal_prefix frequency amplitude offset \<longleftrightarrow>
     (amplitude \<noteq> None \<longrightarrow> frequency \<noteq> None) \<and>
     (offset \<noteq> None \<longrightarrow> frequency \<noteq> None \<and> amplitude \<noteq> None)"

text \<open>The parameters that were supplied, in order.\<close>

fun supplied :: "'a option list \<Rightarrow> 'a list" where
  "supplied [] = []"
| "supplied (None # ps) = supplied ps"
| "supplied (Some v # ps) = v # supplied ps"

text \<open>The parameters up to the first omitted one.\<close>

fun longest_prefix :: "'a option list \<Rightarrow> 'a list" where
  "longest_prefix [] = []"
| "longest_prefix (None # ps) = []"
| "longest_prefix (Some v # ps) = v # longest_prefix ps"

text \<open>
  The text that follows \<^verbatim>\<open>SOUR:APPL:<FUNC>\<close> for a list of values: nothing for no
  value, otherwise a space and the values joined by commas.
\<close>

definition value_list :: "(rat \<Rightarrow> string) \<Rightarrow> pyval list \<Rightarrow> string" where
  "value_list float_repr vs = join '','' (map (format_val float_repr) vs)"

definition trailing :: "(rat \<Rightarrow> string) \<Rightarrow> pyval list \<Rightarrow> string" where
  "trailing float_repr vs = (if vs = [] then [] else '' '' @ value_list float_repr vs)"

text \<open>The fields of a text separated by the character \<open>c\<close>, as \<^verbatim>\<open>s.split(c)\<close> gives them.\<close>

fun split_on :: "char \<Rightarrow> string \<Rightarrow> string list" where
  "split_on c [] = [[]]"
| "split_on c (x # xs) =
     (if x = c then [] # split_on c xs
      else case split_on c xs of [] \<Rightarrow> [[x]] | w # ws \<Rightarrow> (x # w) # ws)"

text \<open>
  Rounding to the nearest int with a tie going away from zero, the rounding named by the
  specification's example.
\<close>

definition round_half_away :: "rat \<Rightarrow> int" where
  "round_half_away x = (if 0 \<le> x then \<lfloor>x + 1 / 2\<rfloor> else - \<lfloor>- x + 1 / 2\<rfloor>)"

section \<open>Texts of concrete numbers\<close>

lemma str_10: "str_int 10 = ''10''"
  by code_simp

lemma str_50: "str_int 50 = ''50''"
  by code_simp

lemma str_1000: "str_int 1000 = ''1000''"
  by code_simp

lemma str_1: "str_int 1 = ''1''"
  by code_simp


lemma str_codes_4: "join '','' (map str_int [511, - 256, 0, 256]) = ''511,-256,0,256''"
  by code_simp

section \<open>Splitting a joined text\<close>

lemma split_on_append:
  "c \<notin> set w \<Longrightarrow> split_on c (w @ c # rest) = w # split_on c rest"
  by (induction w) auto

lemma split_on_single: "c \<notin> set w \<Longrightarrow> split_on c w = [w]"
  by (induction w) auto

lemma split_on_join:
  "ws \<noteq> [] \<Longrightarrow> \<forall>w \<in> set ws. c \<notin> set w \<Longrightarrow> split_on c (join [c] ws) = ws"
proof (induction "[c]" ws rule: join.induct)
  case 1
  then show ?case by simp
next
  case (2 x)
  then show ?case by (simp add: split_on_single)
next
  case (3 x y ys)
  then show ?case by (simp add: split_on_append)
qed

section \<open>The apply command\<close>

lemma apply_longest:
  "apply_method float_repr function frequency amplitude offset t
     = (Inr (), t @ [''SOUR:APPL:'' @ function
                      @ trailing float_repr (longest_prefix [frequency, amplitude, offset])])"
  by (cases frequency; cases amplitude; cases offset)
     (simp_all add: apply_method_def write_method_def trailing_def value_list_def)

lemma legal_supplied:
  "legal_prefix frequency amplitude offset \<Longrightarrow>
     longest_prefix [frequency, amplitude, offset] = supplied [frequency, amplitude, offset]"
  by (cases frequency; cases amplitude; cases offset) (simp_all add: legal_prefix_def)

lemma length_supplied: "length (supplied ps) = length (filter (\<lambda>p. p \<noteq> None) ps)"
  by (induction ps rule: supplied.induct) simp_all

text \<open>
  C2. When the supplied parameters form a legal prefix of (frequency, amplitude, offset),
  \<^verbatim>\<open>apply\<close> writes one command: \<^verbatim>\<open>SOUR:APPL:<FUNC>\<close> followed, when a parameter
  is supplied, by a space and the texts of the supplied parameters in that order, joined
  by commas. There are as many values as supplied parameters, and when no value's text
  contains a comma, splitting the value list at the commas gives back exactly these
  texts.
\<close>

theorem apply_legal_prefix:
  assumes "legal_prefix frequency amplitude offset"
  shows "apply_method float_repr function frequency amplitude offset t
           = (Inr (), t @ [''SOUR:APPL:'' @ function
                @ trailing float_repr (supplied [frequency, amplitude, offset])])
         \<and> length (supplied [frequency, amplitude, offset])
             = length (filter (\<lambda>p. p \<noteq> None) [frequency, amplitude, offset])
         \<and> (supplied [frequency, amplitude, offset] \<noteq> []
              \<and> (\<forall>v \<in> set (supplied [frequency, amplitude, offset]).
                    CHR '','' \<notin> set (format_val float_repr v))
             \<longrightarrow> split_on CHR '','' (value_list float_repr (supplied [frequency, amplitude, offset]))
                   = map (format_val float_repr) (supplied [frequency, amplitude, offset]))"
proof (intro conjI impI)
  show "apply_method float_repr function frequency amplitude offset t
           = (Inr (), t @ [''SOUR:APPL:'' @ function
                @ trailing float_repr (supplied [frequency, amplitude, offset])])"
    using apply_longest [of float_repr "function" frequency amplitude offset t]
      legal_supplied [OF assms] by simp
next
  show "length (supplied [frequency, amplitude, offset])
             = length (filter (\<lambda>p. p \<noteq> None) [frequency, amplitude, offset])"
    by (rule length_supplied)
next
  assume a: "supplied [frequency, amplitude, offset] \<noteq> []
              \<and> (\<forall>v \<in> set (supplied [frequency, amplitude, offset]).
                    CHR '','' \<notin> set (format_val float_repr v))"
  then show "split_on CHR '','' (value_list float_repr (supplied [frequency, amplitude, offset]))
                   = map (format_val float_repr) (supplied [frequency, amplitude, offset])"
    unfolding value_list_def by (intro split_on_join) auto
qed

theorem apply_legal_prefix_witness:
  "apply_method repr_integral ''SIN'' (Some (PyInt 1000)) (Some (PyFloat 1)) (Some (PyStr ''DEF'')) []
       = (Inr (), [''SOUR:APPL:SIN 1000,1.0,DEF''])
   \<and> split_on CHR '','' ''1000,1.0,DEF'' = [''1000'', ''1.0'', ''DEF'']"
proof -
  have h: "legal_prefix (Some (PyInt 1000)) (Some (PyFloat 1)) (Some (PyStr ''DEF''))"
    by (simp add: legal_prefix_def)
  show ?thesis
    using apply_legal_prefix [OF h, of repr_integral "''SIN''" "[]"]
    by (simp add: trailing_def value_list_def repr_integral_def str_1000 str_1)
qed

text \<open>
  C9. \<^verbatim>\<open>apply\<close> never raises and always writes one command, which holds exactly the
  parameters up to the first omitted one: a parameter after an omitted one is dropped.
  Without a frequency the command is the bare \<^verbatim>\<open>SOUR:APPL:<FUNC>\<close>; with a frequency
  and no amplitude it holds the frequency only, whatever the offset is.
\<close>

theorem apply_longest_prefix:
  "apply_method float_repr function frequency amplitude offset t
     = (Inr (), t @ [''SOUR:APPL:'' @ function
                      @ trailing float_repr (longest_prefix [frequency, amplitude, offset])])
   \<and> apply_method float_repr function None amplitude offset t
     = (Inr (), t @ [''SOUR:APPL:'' @ function])
   \<and> apply_method float_repr function (Some f) None offset t
     = (Inr (), t @ [''SOUR:APPL:'' @ function @ '' '' @ format_val float_repr f])"
  by (simp add: apply_longest trailing_def value_list_def)

theorem apply_longest_prefix_witness:
  "apply_method repr_integral ''SQU'' (Some (PyInt 1000)) None (Some (PyFloat 0)) []
     = (Inr (), [''SOUR:APPL:SQU 1000''])
   \<and> apply_method repr_integral ''SQU'' None (Some (PyFloat 1)) (Some (PyFloat 0)) []
     = (Inr (), [''SOUR:APPL:SQU''])"
  using apply_longest_prefix [of repr_integral "''SQU''" None "Some (PyFloat 1)" "Some (PyFloat 0)" "[]"
      "PyInt 1000"]
  by (simp add: str_1000 trailing_def)

text \<open>
  C3, as the code has it. A combination of parameters with a gap raises nothing:
  \<^verbatim>\<open>apply\<close> returns normally and writes one command, \<^verbatim>\<open>SOUR:APPL:<FUNC>\<close> followed
  by the frequency when a frequency is supplied and by nothing otherwise.
\<close>

theorem apply_gap_no_error:
  assumes "\<not> legal_prefix frequency amplitude offset"
  shows "apply_method float_repr function frequency amplitude offset t
           = (Inr (), t @ [''SOUR:APPL:'' @ function
                @ (case frequency of None \<Rightarrow> [] | Some f \<Rightarrow> '' '' @ format_val float_repr f)])"
  using assms
  by (cases frequency; cases amplitude; cases offset)
     (simp_all add: apply_method_def write_method_def legal_prefix_def)

theorem apply_gap_no_error_witness:
  "apply_method repr_integral ''RAMP'' (Some (PyInt 1000)) None (Some (PyFloat 0)) []
     = (Inr (), [''SOUR:APPL:RAMP 1000''])"
proof -
  have h: "\<not> legal_prefix (Some (PyInt 1000)) None (Some (PyFloat 0))"
    by (simp add: legal_prefix_def)
  show ?thesis
    using apply_gap_no_error [OF h, of repr_integral "''RAMP''" "[]"]
    by (simp add: str_1000)
qed

text \<open>
  With an amplitude and no frequency, \<^verbatim>\<open>apply\<close> does not fail: it returns normally and
  the bare command has been written.
\<close>

theorem apply_gap_counterexample:
  "fst (apply_method repr_integral ''SIN'' None (Some (PyStr ''MAX'')) None []) = Inr ()
   \<and> snd (apply_method repr_integral ''SIN'' None (Some (PyStr ''MAX'')) None []) = [''SOUR:APPL:SIN'']"
  by (simp add: apply_method_def write_method_def)

section \<open>Amplitude modulation\<close>

text \<open>
  C7. With state \<^verbatim>\<open>OFF\<close>, \<^verbatim>\<open>set_amplitude_modulation\<close> writes exactly one command,
  \<^verbatim>\<open>SOUR:AM:STAT OFF\<close>, whatever the source, function, frequency and depth are.
\<close>

theorem am_off_single_command:
  "set_amplitude_modulation float_repr ''OFF'' source function frequency depth t
     = (Inr (), t @ [''SOUR:AM:STAT OFF''])"
  by (simp add: set_amplitude_modulation_def write_method_def)

theorem am_off_single_command_witness:
  "set_amplitude_modulation repr_integral ''OFF'' ''INT'' ''SQU'' (PyFloat 100) (PyStr ''MAX'') []
     = (Inr (), [''SOUR:AM:STAT OFF''])"
  using am_off_single_command [of repr_integral "''INT''" "''SQU''" "PyFloat 100" "PyStr ''MAX''" "[]"]
  by simp

text \<open>
  C6, as the code has it. With state \<^verbatim>\<open>ON\<close> and source \<^verbatim>\<open>EXT\<close>, exactly three
  commands are written, in this order: the state, the source and the depth. The commands
  for the internal function and the internal frequency are left out.
\<close>

theorem am_on_ext_three_commands:
  "set_amplitude_modulation float_repr ''ON'' ''EXT'' function frequency depth t
     = (Inr (), t @ [''SOUR:AM:STAT ON'', ''SOUR:AM:SOUR EXT'',
                     ''SOUR:AM:DEPT '' @ format_val float_repr depth])"
  by (simp add: set_amplitude_modulation_def write_method_def)

theorem am_on_ext_three_commands_witness:
  "set_amplitude_modulation repr_integral ''ON'' ''EXT'' ''SIN'' (PyFloat 100) (PyFloat 50) []
     = (Inr (), [''SOUR:AM:STAT ON'', ''SOUR:AM:SOUR EXT'', ''SOUR:AM:DEPT 50.0''])"
  using am_on_ext_three_commands [of repr_integral "''SIN''" "PyFloat 100" "PyFloat 50" "[]"]
  by (simp add: repr_integral_def str_50)

text \<open>The number of commands written for state \<^verbatim>\<open>ON\<close> and source \<^verbatim>\<open>EXT\<close> is not two.\<close>

theorem am_on_ext_counterexample:
  "length (snd (set_amplitude_modulation repr_integral ''ON'' ''EXT'' ''SIN''
      (PyFloat 100) (PyFloat 50) [])) \<noteq> 2"
  by (simp add: set_amplitude_modulation_def write_method_def)

section \<open>Arbitrary waveform data\<close>

subsection \<open>The slot range and the peak\<close>

lemma slot_in_range: "slot \<in> set (py_range 10 20) \<longleftrightarrow> 10 \<le> slot \<and> slot \<le> 19"
  unfolding py_range_def set_upto by simp

lemma py_max_Max: "xs \<noteq> [] \<Longrightarrow> py_max xs = Inr (Max (set xs))"
proof (cases xs)
  case Nil
  then show "xs \<noteq> [] \<Longrightarrow> ?thesis" by simp
next
  case (Cons x ys)
  have "(\<lambda>y m. if m < y then y else m) = (max :: rat \<Rightarrow> rat \<Rightarrow> rat)"
    by (auto simp add: fun_eq_iff max_def)
  then show ?thesis
    using Cons Max.set_eq_fold [of x ys] by simp
qed

lemma max_val_Max: "data \<noteq> [] \<Longrightarrow> max_val data = Inr (Max (abs ` set data))"
  by (simp add: max_val_def py_max_Max)

lemma max_val_zero:
  assumes "data \<noteq> []" "\<forall>x \<in> set data. x = 0"
  shows "max_val data = Inr 0"
proof -
  have "abs ` set data = {0}" using assms by (cases data) auto
  then show ?thesis using assms(1) by (simp add: max_val_Max)
qed


subsection \<open>Rounding to an int\<close>

lemma py_round_error: "\<bar>of_int (py_round y) - y\<bar> \<le> 1 / 2"
proof -
  have "of_int \<lfloor>y\<rfloor> \<le> y" "y < of_int \<lfloor>y\<rfloor> + 1" by linarith+
  then show ?thesis
    by (auto simp add: py_round_def Let_def abs_le_iff)
qed




subsection \<open>Rounding to a double\<close>

lemma pow2_bitlen_le:
  assumes "0 < p"
  shows "(2::rat) powi (bitlen p - 1) \<le> of_int p"
proof -
  have b: "1 \<le> bitlen p" using assms bitlen_eq_zero_iff [of p] bitlen_nonneg [of p] by linarith
  have "(2::int) ^ nat (bitlen p - 1) \<le> p" using bitlen_bounds [OF assms] by simp
  then have "of_int ((2::int) ^ nat (bitlen p - 1)) \<le> (of_int p :: rat)"
    by (simp only: of_int_le_iff)
  then show ?thesis using b by (simp add: power_int_def)
qed

lemma bitlen_less_pow2:
  assumes "0 < q"
  shows "(of_int q :: rat) < 2 powi (bitlen q)"
proof -
  have "q < (2::int) ^ nat (bitlen q)" using bitlen_bounds [OF assms] by simp
  then have "(of_int q :: rat) < of_int ((2::int) ^ nat (bitlen q))"
    by (simp only: of_int_less_iff)
  then show ?thesis using bitlen_nonneg [of q] by (simp add: power_int_def)
qed

text \<open>The exponent is the one of the binary representation.\<close>

lemma float_exponent_bounds:
  assumes "x \<noteq> 0"
  shows "2 powi (float_exponent x) \<le> \<bar>x\<bar>" and "\<bar>x\<bar> < 2 powi (float_exponent x + 1)"
proof -
  obtain p q where pq: "quotient_of \<bar>x\<bar> = (p, q)" by (cases "quotient_of \<bar>x\<bar>")
  have q: "0 < q" using pq by (rule quotient_of_denom_pos)
  have x: "\<bar>x\<bar> = of_int p / of_int q" using pq by (rule quotient_of_div)
  have "0 < \<bar>x\<bar>" using assms by simp
  then have p: "0 < p" using q unfolding x by (simp add: zero_less_divide_iff)
  let ?d = "bitlen p - bitlen q"
  have "(2::rat) powi (?d - 1) = 2 powi (bitlen p - 1) / 2 powi (bitlen q)"
    by (simp add: power_int_diff)
  also have "\<dots> \<le> of_int p / 2 powi (bitlen q)"
    using pow2_bitlen_le [OF p] by (simp add: divide_right_mono)
  also have "\<dots> \<le> of_int p / of_int q"
    using bitlen_less_pow2 [OF q] p q by (simp add: divide_left_mono)
  finally have lo: "(2::rat) powi (?d - 1) \<le> \<bar>x\<bar>" unfolding x .
  have "of_int p / of_int q < (2::rat) powi (bitlen p) / of_int q"
    using bitlen_less_pow2 [OF p] q by (simp add: divide_strict_right_mono)
  also have "\<dots> \<le> 2 powi (bitlen p) / 2 powi (bitlen q - 1)"
    using pow2_bitlen_le [OF q] q by (intro divide_left_mono) simp_all
  also have "\<dots> = 2 powi (?d + 1)"
    by (simp add: power_int_diff power_int_add)
  finally have hi: "\<bar>x\<bar> < 2 powi (?d + 1)" unfolding x .
  show "2 powi (float_exponent x) \<le> \<bar>x\<bar>"
    using lo by (simp add: float_exponent_def pq Let_def)
  show "\<bar>x\<bar> < 2 powi (float_exponent x + 1)"
    using hi by (auto simp add: float_exponent_def pq Let_def not_le)
qed

text \<open>
  The error of rounding to a double: at most the relative error \<open>2^-53\<close> in the normal
  range and at most \<open>2^-1075\<close> below it.
\<close>

lemma round_double_error:
  "\<bar>round_double x - x\<bar> \<le> \<bar>x\<bar> * unit_roundoff + tiny"
proof (cases "x = 0")
  case True
  then show ?thesis by (simp add: round_double_def unit_roundoff_def tiny_def)
next
  case False
  define e where "e = max (float_exponent x) (- 1022)"
  define q :: rat where "q = 2 powi (e - 52)"
  have qpos: "0 < q" by (simp add: q_def)
  have rd: "round_double x = of_int (py_round (x / q)) * q"
    using False by (simp add: round_double_def Let_def e_def q_def)
  have "round_double x - x = (of_int (py_round (x / q)) - x / q) * q"
    using qpos by (simp add: rd left_diff_distrib)
  then have "\<bar>round_double x - x\<bar> = \<bar>of_int (py_round (x / q)) - x / q\<bar> * q"
    using qpos by (simp add: abs_mult)
  also have "\<dots> \<le> 1 / 2 * q"
    using py_round_error [of "x / q"] qpos by (intro mult_right_mono) simp_all
  also have "\<dots> = 2 powi (e - 53)"
    by (simp add: q_def power_int_diff)
  finally have h: "\<bar>round_double x - x\<bar> \<le> 2 powi (e - 53)" .
  have nn: "0 \<le> \<bar>x\<bar> * unit_roundoff" "0 \<le> tiny"
    by (simp_all add: unit_roundoff_def tiny_def)
  show ?thesis
  proof (cases "- 1022 \<le> float_exponent x")
    case True
    then have "e = float_exponent x" by (simp add: e_def)
    then have "(2::rat) powi (e - 53) = 2 powi (float_exponent x) * unit_roundoff"
      by (simp add: power_int_diff unit_roundoff_def)
    also have "\<dots> \<le> \<bar>x\<bar> * unit_roundoff"
      using float_exponent_bounds(1) [OF \<open>x \<noteq> 0\<close>]
      by (intro mult_right_mono) (simp_all add: unit_roundoff_def)
    finally show ?thesis using h nn by linarith
  next
    case False
    then have "e = - 1022" by (simp add: e_def)
    then have "(2::rat) powi (e - 53) = tiny"
      by (simp add: tiny_def power_int_minus inverse_eq_divide)
    then show ?thesis using h nn by linarith
  qed
qed


lemma tiny_small: "tiny \<le> 1 / 2 ^ 51"
proof -
  have "(2::rat) ^ 51 \<le> 2 ^ 1075" by (rule power_increasing) simp_all
  then show ?thesis by (simp add: tiny_def frac_le)
qed



lemma to_double_in_range: "\<bar>round_double x\<bar> < 2 ^ 1024 \<Longrightarrow> to_double x = Finite (round_double x)"
  by (simp add: to_double_def Let_def)

lemma to_double_overflow:
  assumes "2 ^ 1026 \<le> x"
  shows "to_double x = Infinity"
proof -
  have p: "(2::rat) ^ 1026 = 4 * 2 ^ 1024" by (simp add: power_add [symmetric])
  have big: "(1::rat) \<le> 2 ^ 1024" by (rule one_le_power) simp
  have x: "0 \<le> x" "4 * 2 ^ 1024 \<le> x" using assms big unfolding p by linarith+
  have "\<bar>x\<bar> * unit_roundoff \<le> \<bar>x\<bar> * (1 / 2)"
    by (intro mult_left_mono) (simp_all add: unit_roundoff_def)
  then have "\<bar>round_double x - x\<bar> \<le> x / 2 + 1"
    using round_double_error [of x] tiny_small x(1) by simp
  then have "2 ^ 1024 \<le> round_double x" using x big by linarith
  then have "2 ^ 1024 \<le> \<bar>round_double x\<bar>" by linarith
  then show ?thesis by (simp add: to_double_def Let_def)
qed

subsection \<open>The codes\<close>






lemma set_arb_data_upload:
  assumes "1 \<le> length data" "length data \<le> 4096" "10 \<le> slot" "slot \<le> 19"
    and "max_val data = Inr peak" "peak \<noteq> 0" "codes data (scale peak) = Inr cs"
  shows "set_arb_data data slot t
           = (Inr None, t @ [''DATA:DAC VOLATILE,0,'' @ join '','' (map str_int cs),
                            ''*SAV '' @ str_int slot])"
  using assms
  by (simp add: set_arb_data_def slot_in_range data_str_def save_def write_method_def)

text \<open>
  A peak so small that the scale is infinite: the first sample cannot be rounded, the
  method ends with the exception of \<^verbatim>\<open>round\<close> and nothing is written.
\<close>

lemma scale_overflow:
  assumes "0 < m" "m \<le> 1 / 2 ^ 1018"
  shows "scale m = Infinity"
  unfolding scale_def
proof (rule to_double_overflow)
  have "(2::rat) ^ 1026 = 256 * 2 ^ 1018" by (simp add: power_add [symmetric])
  also have "\<dots> \<le> 511 * 2 ^ 1018" by simp
  also have "\<dots> = 511 / (1 / 2 ^ 1018)" by simp
  also have "\<dots> \<le> 511 / m"
    using assms by (intro divide_left_mono) simp_all
  finally show "(2::rat) ^ 1026 \<le> 511 / m" .
qed

lemma set_arb_data_overflow:
  assumes "1 \<le> length data" "length data \<le> 4096" "10 \<le> slot" "slot \<le> 19"
    and "max_val data = Inr peak" "peak \<noteq> 0" "scale peak = Infinity"
  shows "set_arb_data data slot t
           = (Inl (if hd data = 0 then ValueError else OverflowError), t)"
proof -
  obtain x xs where d: "data = x # xs" using assms(1) by (cases data) auto
  have "codes data (scale peak) = Inl (if hd data = 0 then ValueError else OverflowError)"
    by (simp add: d assms(7))
  then show ?thesis
    using assms(1-6) by (simp add: set_arb_data_def slot_in_range)
qed



subsection \<open>Properties of the encoding\<close>


lemma scale_1: "scale 1 = Finite 511"
proof -
  have "round_double 511 = 511" by code_simp
  then show ?thesis using to_double_in_range [of 511] by (simp add: scale_def)
qed







text \<open>
  C5. For the samples \<open>[1.0, -0.5, 0.0, 0.5]\<close> the peak is 1, the scale is 511 and the
  codes are \<open>[511, -256, 0, 256]\<close>; rounding ties away from zero gives the same codes as
  the rounding of the code does. With a slot in 10 to 19 the command uploaded is
  \<^verbatim>\<open>DATA:DAC VOLATILE,0,511,-256,0,256\<close>, followed by the save to the slot.
\<close>

theorem arb_example:
  assumes "10 \<le> slot" "slot \<le> 19"
  shows "max_val [1, - 1 / 2, 0, 1 / 2] = Inr 1
       \<and> scale 1 = Finite 511
       \<and> codes [1, - 1 / 2, 0, 1 / 2] (Finite 511) = Inr [511, - 256, 0, 256]
       \<and> map (\<lambda>x. round_half_away (x * 511)) [1, - 1 / 2, 0, 1 / 2] = [511, - 256, 0, 256]
       \<and> set_arb_data [1, - 1 / 2, 0, 1 / 2] slot t
           = (Inr None, t @ [''DATA:DAC VOLATILE,0,511,-256,0,256'', ''*SAV '' @ str_int slot])"
proof -
  have m: "max_val [1, - 1 / 2, 0, 1 / 2] = Inr 1" by (simp add: max_val_def)
  have s: "scale 1 = Finite 511" by (rule scale_1)
  have c: "codes [1, - 1 / 2, 0, 1 / 2] (Finite 511) = Inr [511, - 256, 0, 256]" by code_simp
  have r: "map (\<lambda>x. round_half_away (x * 511)) [1, - 1 / 2, 0, 1 / 2] = [511, - 256, 0, 256]"
    by code_simp
  have c': "codes [1, - 1 / 2, 0, 1 / 2] (scale 1) = Inr [511, - 256, 0, 256]"
    unfolding s by (rule c)
  have l: "1 \<le> length [1, - 1 / 2, 0, 1 / 2 :: rat]" "length [1, - 1 / 2, 0, 1 / 2 :: rat] \<le> 4096"
    "(1::rat) \<noteq> 0" by simp_all
  have "set_arb_data [1, - 1 / 2, 0, 1 / 2] slot t
           = (Inr None, t @ [''DATA:DAC VOLATILE,0,''
                @ join '','' (map str_int [511, - 256, 0, 256]), ''*SAV '' @ str_int slot])"
    by (rule set_arb_data_upload [OF l(1,2) assms m l(3) c'])
  then have u: "set_arb_data [1, - 1 / 2, 0, 1 / 2] slot t
           = (Inr None, t @ [''DATA:DAC VOLATILE,0,511,-256,0,256'', ''*SAV '' @ str_int slot])"
    by (simp only: str_codes_4) simp
  show ?thesis using m s c r u by blast
qed

theorem arb_example_witness:
  "(10::int) \<le> 10 \<and> (10::int) \<le> 19
   \<and> set_arb_data [1, - 1 / 2, 0, 1 / 2] 10 []
       = (Inr None, [''DATA:DAC VOLATILE,0,511,-256,0,256'', ''*SAV 10''])"
proof -
  have h: "(10::int) \<le> 10" "(10::int) \<le> 19" by simp_all
  show ?thesis
    using arb_example [OF h, of "[]"] by (simp add: str_10)
qed

subsection \<open>Rejected input and the all-zero waveform\<close>

text \<open>
  C8. A sample sequence whose length is outside 1 to 4096 (such as 0 or 4097) or a slot
  outside 10 to 19 (such as 9 or 20) makes \<^verbatim>\<open>set_arb_data\<close> fail, with the
  \<^verbatim>\<open>AssertionError\<close> of its assertions, and nothing has been written to the
  transport when it fails.
\<close>

theorem set_arb_data_rejects:
  assumes "length data < 1 \<or> 4096 < length data \<or> slot < 10 \<or> 19 < slot"
  shows "set_arb_data data slot t = (Inl AssertionError, t)"
  using assms by (auto simp add: set_arb_data_def slot_in_range)

theorem set_arb_data_rejects_witness:
  "set_arb_data [] 10 [] = (Inl AssertionError, [])
   \<and> set_arb_data (replicate 4097 1) 10 [] = (Inl AssertionError, [])
   \<and> set_arb_data [1] 9 [] = (Inl AssertionError, [])
   \<and> set_arb_data [1] 20 [] = (Inl AssertionError, [])"
  using set_arb_data_rejects [of "[]" 10 "[]"]
    set_arb_data_rejects [of "replicate 4097 1" 10 "[]"]
    set_arb_data_rejects [of "[1]" 9 "[]"]
    set_arb_data_rejects [of "[1]" 20 "[]"]
  by simp

text \<open>
  C10. For an all-zero sample sequence of length 1 to 4096 and a slot in 10 to 19,
  \<^verbatim>\<open>set_arb_data\<close> returns (a list of as many zeros) and the transport is unchanged:
  neither the upload nor the save is written.
\<close>

theorem set_arb_data_zero_no_write:
  assumes "1 \<le> length data" "length data \<le> 4096" "10 \<le> slot" "slot \<le> 19"
    and "\<forall>x \<in> set data. x = 0"
  shows "set_arb_data data slot t = (Inr (Some (replicate (length data) 0)), t)"
proof -
  have "data \<noteq> []" using assms(1) by auto
  then have "max_val data = Inr 0" using assms(5) by (rule max_val_zero)
  then show ?thesis using assms by (simp add: set_arb_data_def slot_in_range)
qed

theorem set_arb_data_zero_no_write_witness:
  "1 \<le> length [0, 0, 0 :: rat] \<and> length [0, 0, 0 :: rat] \<le> 4096
   \<and> (10::int) \<le> 12 \<and> (12::int) \<le> 19
   \<and> set_arb_data [0, 0, 0] 12 [''*RST''] = (Inr (Some [0, 0, 0]), [''*RST''])"
  using set_arb_data_zero_no_write [of "[0, 0, 0]" 12 "[''*RST'']"]
  by (simp add: numeral_3_eq_3)

text \<open>
  C4. For the one-sample waveform \<open>[0.0]\<close> and slot 10 the method returns the list
  \<open>[0.0]\<close> and writes nothing, where the upload \<^verbatim>\<open>DATA:DAC VOLATILE,0,0\<close> and the save
  \<^verbatim>\<open>*SAV 10\<close> were to be written.
\<close>

theorem set_arb_data_zero_skips_upload:
  "set_arb_data [0] 10 [] = (Inr (Some [0]), [])
   \<and> set_arb_data [0] 10 [] \<noteq> (Inr None, [''DATA:DAC VOLATILE,0,0'', ''*SAV 10''])"
  by (simp add: set_arb_data_def slot_in_range max_val_def)

end
